theory Spec2Isabelle
  imports Main
begin

section \<open>Python string operations used by the scraper\<close>

text \<open>
  A string is the list of its code points, a character being a code point below 256.
  On this range \<open>isspace\<close> is Python's \<^verbatim>\<open>str.isspace\<close>, which \<^verbatim>\<open>str.strip\<close> and the
  splitting of a \<^verbatim>\<open>class\<close> value go by: the ASCII white space, the four separators
  0x1C to 0x1F, the next-line control 0x85 and the no-break space 0xA0.
\<close>

definition isspace :: "char \<Rightarrow> bool" where
  "isspace c = (c \<in> set [CHR 0x09, CHR 0x0A, CHR 0x0B, CHR 0x0C, CHR 0x0D,
                           CHR 0x1C, CHR 0x1D, CHR 0x1E, CHR 0x1F, CHR 0x20,
                           CHR 0x85, CHR 0xA0])"

text \<open>
  \<^verbatim>\<open>str.lower\<close> on this range: the letters A to Z, and the capitals 0xC0 to 0xDE
  without the multiplication sign 0xD7, go to the code point 0x20 above; every other
  character stays.
\<close>

definition upper_letters :: string where
  "upper_letters =
     ''ABCDEFGHIJKLMNOPQRSTUVWXYZ'' @
       [CHR 0xC0, CHR 0xC1, CHR 0xC2, CHR 0xC3, CHR 0xC4, CHR 0xC5, CHR 0xC6, CHR 0xC7,
        CHR 0xC8, CHR 0xC9, CHR 0xCA, CHR 0xCB, CHR 0xCC, CHR 0xCD, CHR 0xCE, CHR 0xCF,
        CHR 0xD0, CHR 0xD1, CHR 0xD2, CHR 0xD3, CHR 0xD4, CHR 0xD5, CHR 0xD6, CHR 0xD8,
        CHR 0xD9, CHR 0xDA, CHR 0xDB, CHR 0xDC, CHR 0xDD, CHR 0xDE]"

definition lower_letters :: string where
  "lower_letters =
     ''abcdefghijklmnopqrstuvwxyz'' @
       [CHR 0xE0, CHR 0xE1, CHR 0xE2, CHR 0xE3, CHR 0xE4, CHR 0xE5, CHR 0xE6, CHR 0xE7,
        CHR 0xE8, CHR 0xE9, CHR 0xEA, CHR 0xEB, CHR 0xEC, CHR 0xED, CHR 0xEE, CHR 0xEF,
        CHR 0xF0, CHR 0xF1, CHR 0xF2, CHR 0xF3, CHR 0xF4, CHR 0xF5, CHR 0xF6, CHR 0xF8,
        CHR 0xF9, CHR 0xFA, CHR 0xFB, CHR 0xFC, CHR 0xFD, CHR 0xFE]"

definition lower_char :: "char \<Rightarrow> char" where
  "lower_char c =
     (case map_of (zip upper_letters lower_letters) c of
        None \<Rightarrow> c
      | Some l \<Rightarrow> l)"

definition lower :: "string \<Rightarrow> string" where
  "lower s = map lower_char s"

definition strip :: "string \<Rightarrow> string" where
  "strip s = rev (dropWhile isspace (rev (dropWhile isspace s)))"

definition startswith :: "string \<Rightarrow> string \<Rightarrow> bool" where
  "startswith s p = (take (length p) s = p)"

text \<open>\<^verbatim>\<open>sub in s\<close>: \<open>sub\<close> occurs in \<open>s\<close> as a contiguous run.\<close>

fun py_in :: "string \<Rightarrow> string \<Rightarrow> bool" where
  "py_in sub [] = (sub = [])"
| "py_in sub (c # cs) = (startswith (c # cs) sub \<or> py_in sub cs)"

text \<open>\<^verbatim>\<open>s.replace(old, '')\<close>: every occurrence of \<open>old\<close>, found left to right without
  overlap, is deleted; an empty \<open>old\<close> leaves the string as it is.\<close>

fun replace_del :: "string \<Rightarrow> string \<Rightarrow> string" where
  "replace_del old [] = []"
| "replace_del old (c # cs) =
     (if old \<noteq> [] \<and> startswith (c # cs) old
      then replace_del old (drop (length old) (c # cs))
      else c # replace_del old cs)"

text \<open>\<^verbatim>\<open>str(n)\<close> for a non-negative integer, and the zero-padded fields of \<^verbatim>\<open>strftime\<close>.\<close>

definition digit_char :: "nat \<Rightarrow> char" where
  "digit_char d = ''0123456789'' ! d"

fun str_nat :: "nat \<Rightarrow> string" where
  "str_nat n = (if n < 10 then [digit_char n] else str_nat (n div 10) @ [digit_char (n mod 10)])"

definition zfill :: "nat \<Rightarrow> string \<Rightarrow> string" where
  "zfill w s = replicate (w - length s) (CHR ''0'') @ s"

declare str_nat.simps [simp del]
declare replace_del.simps [simp del]

section \<open>The parsed page: a queryable tree\<close>

text \<open>
  The markup library is a collaborator of the scraper; what the scraper uses of it is a
  tree of tags (name, attribute dictionary, children), text nodes and comments, searched
  in document order.  A search never returns the element it starts from.
\<close>

datatype node =
    Tag string "(string \<times> string) list" "node list"
  | NavigableString string
  | Comment string

fun descendants :: "node \<Rightarrow> node list" where
  "descendants (Tag n a cs) = concat (map (\<lambda>c. c # descendants c) cs)"
| "descendants (NavigableString s) = []"
| "descendants (Comment s) = []"

text \<open>\<^verbatim>\<open>el.get(key)\<close> on the attribute dictionary of a tag.\<close>

fun get_attr :: "node \<Rightarrow> string \<Rightarrow> string option" where
  "get_attr (Tag n a cs) k = map_of a k"
| "get_attr (NavigableString s) k = None"
| "get_attr (Comment s) k = None"

text \<open>
  An attribute filter is either \<^verbatim>\<open>True\<close> (the attribute is there) or a string.  The
  value of \<^verbatim>\<open>class\<close> is held as its whitespace-separated tokens: a string matches it when
  it is one of the tokens or the tokens joined by single spaces; any other attribute must
  equal the string.
\<close>

datatype attr_query = IsPresent | Equals string

fun split_acc :: "string \<Rightarrow> string \<Rightarrow> string list" where
  "split_acc w [] = (if w = [] then [] else [w])"
| "split_acc w (c # cs) =
     (if isspace c then (if w = [] then split_acc [] cs else w # split_acc [] cs)
      else split_acc (w @ [c]) cs)"

definition split_ws :: "string \<Rightarrow> string list" where
  "split_ws s = split_acc [] s"

fun join_sp :: "string list \<Rightarrow> string" where
  "join_sp [] = []"
| "join_sp [w] = w"
| "join_sp (w # ws) = w @ '' '' @ join_sp ws"

fun attr_matches :: "string \<Rightarrow> string option \<Rightarrow> attr_query \<Rightarrow> bool" where
  "attr_matches k v IsPresent = (v \<noteq> None)"
| "attr_matches k None (Equals s) = False"
| "attr_matches k (Some v) (Equals s) =
     (if k = ''class'' then s \<in> set (split_ws v) \<or> join_sp (split_ws v) = s else v = s)"

fun search_tag :: "string \<Rightarrow> (string \<times> attr_query) list \<Rightarrow> node \<Rightarrow> bool" where
  "search_tag nm qs (Tag n a cs) =
     (n = nm \<and> list_all (\<lambda>(k, q). attr_matches k (map_of a k) q) qs)"
| "search_tag nm qs (NavigableString s) = False"
| "search_tag nm qs (Comment s) = False"

definition find_all :: "node \<Rightarrow> string \<Rightarrow> (string \<times> attr_query) list \<Rightarrow> node list" where
  "find_all el nm qs = filter (search_tag nm qs) (descendants el)"

definition find_tag :: "node \<Rightarrow> string \<Rightarrow> (string \<times> attr_query) list \<Rightarrow> node option" where
  "find_tag el nm qs = (case find_all el nm qs of [] \<Rightarrow> None | x # xs \<Rightarrow> Some x)"

text \<open>\<^verbatim>\<open>el.find(text=p)\<close>: the first string of the tree, comments included, that \<open>p\<close>
  accepts.\<close>

fun node_string :: "node \<Rightarrow> string option" where
  "node_string (Tag n a cs) = None"
| "node_string (NavigableString s) = Some s"
| "node_string (Comment s) = Some s"

definition find_text :: "node \<Rightarrow> (string \<Rightarrow> bool) \<Rightarrow> string option" where
  "find_text el p = List.find p (List.map_filter node_string (descendants el))"

text \<open>\<^verbatim>\<open>el.text\<close>: the text nodes below the element, concatenated; comments are left out.\<close>

fun get_text :: "node \<Rightarrow> string" where
  "get_text (Tag n a cs) = concat (map get_text cs)"
| "get_text (NavigableString s) = s"
| "get_text (Comment s) = []"

section \<open>The occupancy parser\<close>

record occupancy_info =
  total_sections :: nat
  light :: nat
  medium :: nat
  heavy :: nat
  no_data :: nat

text \<open>The body of the inner loop of \<^verbatim>\<open>parse_occupancy\<close>: one indicator element.\<close>

definition dot_style :: "node \<Rightarrow> string" where
  "dot_style dot = (case get_attr dot ''style'' of None \<Rightarrow> [] | Some v \<Rightarrow> v)"

definition count_dot :: "node \<Rightarrow> occupancy_info \<Rightarrow> occupancy_info" where
  "count_dot dot info =
     (let style = dot_style dot in
      if py_in ''background-color: rgb(11, 102, 35)'' style then info\<lparr>light := light info + 1\<rparr>
      else if py_in ''background-color: rgb(255, 193, 7)'' style then info\<lparr>medium := medium info + 1\<rparr>
      else if py_in ''background-color: rgb(220, 53, 69)'' style then info\<lparr>heavy := heavy info + 1\<rparr>
      else info\<lparr>no_data := no_data info + 1\<rparr>)"

definition section_dots :: "node \<Rightarrow> node list" where
  "section_dots section = find_all section ''li'' [(''data-v-8927eb98'', IsPresent)]"

text \<open>The body of the outer loop: all indicator elements of one section.\<close>

definition count_section :: "node \<Rightarrow> occupancy_info \<Rightarrow> occupancy_info" where
  "count_section section info = fold count_dot (section_dots section) info"

definition find_occupancy_section :: "node \<Rightarrow> node option" where
  "find_occupancy_section item =
     find_tag item ''ol''
       [(''data-v-5d9f6349'', IsPresent),
        (''class'', Equals ''list-inline d-inline-block align-self-end m-0 cur--pointer'')]"

definition occupancy_sections :: "node \<Rightarrow> node list" where
  "occupancy_sections occupancy_section =
     find_all occupancy_section ''li'' [(''data-v-b5fd45da'', IsPresent)]"

definition occupancy_zero :: occupancy_info where
  "occupancy_zero = \<lparr>total_sections = 0, light = 0, medium = 0, heavy = 0, no_data = 0\<rparr>"

definition parse_occupancy :: "node \<Rightarrow> occupancy_info" where
  "parse_occupancy item =
     (case find_occupancy_section item of
        None \<Rightarrow> occupancy_zero
      | Some occupancy_section \<Rightarrow>
          (let sections = occupancy_sections occupancy_section in
           fold count_section sections (occupancy_zero\<lparr>total_sections := length sections\<rparr>)))"

section \<open>The departure parser\<close>

record departure =
  timestamp :: string
  station :: string
  destination :: string
  line :: string
  train_number :: string
  departure_time :: string
  status :: string
  track :: string
  car_sections :: nat
  occupancy_light :: nat
  occupancy_medium :: nat
  occupancy_heavy :: nat
  occupancy_no_data :: nat

text \<open>The wall clock of the fixed time zone, as \<^verbatim>\<open>datetime.now\<close> reads it.\<close>

record datetime =
  year :: nat
  month :: nat
  day :: nat
  hour :: nat
  minute :: nat
  second :: nat

definition strftime_date :: "datetime \<Rightarrow> string" where
  "strftime_date t =
     zfill 4 (str_nat (year t)) @ ''-'' @ zfill 2 (str_nat (month t)) @ ''-'' @
     zfill 2 (str_nat (day t))"

definition strftime_datetime :: "datetime \<Rightarrow> string" where
  "strftime_datetime t =
     strftime_date t @ '' '' @ zfill 2 (str_nat (hour t)) @ '':'' @
     zfill 2 (str_nat (minute t)) @ '':'' @ zfill 2 (str_nat (second t))"

datatype exn =
    AttributeError
  | RequestException
  | HTTPError
  | FileExistsError
  | FileNotFoundError
  | IsADirectoryError

text \<open>\<^verbatim>\<open>self.destination_filter and self.destination_filter.lower() not in destination.lower()\<close>:
  \<^verbatim>\<open>None\<close> and the empty string are both falsy.\<close>

definition filtered_out :: "string option \<Rightarrow> string \<Rightarrow> bool" where
  "filtered_out destination_filter dest =
     (case destination_filter of
        None \<Rightarrow> False
      | Some f \<Rightarrow> f \<noteq> [] \<and> \<not> py_in (lower f) (lower dest))"

definition label_scan :: "node \<Rightarrow> string \<Rightarrow> string" where
  "label_scan item label =
     (case find_text item (\<lambda>t. t \<noteq> [] \<and> py_in label t) of
        None \<Rightarrow> []
      | Some t \<Rightarrow> (if t \<noteq> [] then strip (replace_del label (strip t)) else []))"

definition styled_text :: "node \<Rightarrow> string \<Rightarrow> string" where
  "styled_text item cls =
     (case find_tag item ''strong'' [(''class'', Equals cls)] of
        None \<Rightarrow> []
      | Some el \<Rightarrow> strip (get_text el))"

text \<open>
  The body of the inner \<^verbatim>\<open>try\<close> of \<^verbatim>\<open>scrape_departures\<close> for one entry: \<open>Inl\<close> is an
  exception raised inside it, \<open>Inr None\<close> the \<^verbatim>\<open>continue\<close> of the destination filter,
  \<open>Inr (Some d)\<close> the record appended.  \<open>now\<close> is the clock reading taken for the entry.
\<close>

definition parse_entry :: "string option \<Rightarrow> datetime \<Rightarrow> string \<Rightarrow> node \<Rightarrow> exn + departure option" where
  "parse_entry destination_filter now station_name item =
     (case find_tag item ''strong'' [(''data-v-403a649a'', IsPresent)] of
        None \<Rightarrow> Inl AttributeError
      | Some dest_el \<Rightarrow>
          (let dest = strip (get_text dest_el) in
           if filtered_out destination_filter dest then Inr None
           else
             (case find_tag item ''span'' [(''data-v-403a649a'', IsPresent)] of
                None \<Rightarrow> Inl AttributeError
              | Some line_el \<Rightarrow>
                  (let ln = strip (get_text line_el);
                       train = label_scan item ''Train'';
                       dep_time = styled_text item ''h2'';
                       st = styled_text item ''h3'';
                       trk = label_scan item ''Track'';
                       occupancy = parse_occupancy item
                   in Inr (Some \<lparr>timestamp = strftime_datetime now,
                                  station = station_name,
                                  destination = dest,
                                  line = ln,
                                  train_number = train,
                                  departure_time = dep_time,
                                  status = st,
                                  track = trk,
                                  car_sections = total_sections occupancy,
                                  occupancy_light = light occupancy,
                                  occupancy_medium = medium occupancy,
                                  occupancy_heavy = heavy occupancy,
                                  occupancy_no_data = no_data occupancy\<rparr>)))))"

text \<open>
  The loop over the entries of a page.  An exception of the body is caught by the inner
  \<^verbatim>\<open>except\<close>, which goes on with the next entry.  \<open>clock i\<close> is the clock reading during
  the entry at position \<open>i\<close>.
\<close>

fun scrape_items ::
  "string option \<Rightarrow> (nat \<Rightarrow> datetime) \<Rightarrow> string \<Rightarrow> nat \<Rightarrow> node list \<Rightarrow> departure list" where
  "scrape_items destination_filter clock station_name i [] = []"
| "scrape_items destination_filter clock station_name i (item # items) =
     (case parse_entry destination_filter (clock i) station_name item of
        Inl e \<Rightarrow> scrape_items destination_filter clock station_name (Suc i) items
      | Inr None \<Rightarrow> scrape_items destination_filter clock station_name (Suc i) items
      | Inr (Some d) \<Rightarrow> d # scrape_items destination_filter clock station_name (Suc i) items)"

text \<open>
  The network: \<^verbatim>\<open>requests.get\<close> either raises or gives a response, whose status code
  \<^verbatim>\<open>raise_for_status\<close> checks and whose text the markup library turns into a tree.
\<close>

record response =
  status_code :: nat
  parsed_text :: node

definition raise_for_status :: "response \<Rightarrow> exn + unit" where
  "raise_for_status r = (if 400 \<le> status_code r \<and> status_code r < 600 then Inl HTTPError else Inr ())"

definition departure_items :: "node \<Rightarrow> node list" where
  "departure_items soup =
     find_all soup ''li'' [(''data-v-403a649a'', IsPresent), (''class'', Equals ''border'')]"

text \<open>The body of the outer \<^verbatim>\<open>try\<close>.\<close>

definition scrape_departures_body ::
  "string option \<Rightarrow> (string \<Rightarrow> exn + response) \<Rightarrow> (nat \<Rightarrow> datetime) \<Rightarrow> string \<Rightarrow> string
     \<Rightarrow> exn + departure list" where
  "scrape_departures_body destination_filter requests_get clock url station_name =
     (case requests_get url of
        Inl e \<Rightarrow> Inl e
      | Inr r \<Rightarrow>
          (case raise_for_status r of
             Inl e \<Rightarrow> Inl e
           | Inr u \<Rightarrow>
               Inr (scrape_items destination_filter clock station_name 0
                      (departure_items (parsed_text r)))))"

text \<open>\<^verbatim>\<open>scrape_departures\<close>: the outer \<^verbatim>\<open>except\<close> turns every exception of the body into
  the empty list.\<close>

definition scrape_departures ::
  "string option \<Rightarrow> (string \<Rightarrow> exn + response) \<Rightarrow> (nat \<Rightarrow> datetime) \<Rightarrow> string \<Rightarrow> string
     \<Rightarrow> exn + departure list" where
  "scrape_departures destination_filter requests_get clock url station_name =
     (case scrape_departures_body destination_filter requests_get clock url station_name of
        Inl e \<Rightarrow> Inr []
      | Inr departures \<Rightarrow> Inr departures)"

section \<open>The daily file writer\<close>

subsection \<open>The service-day bucket\<close>

definition is_leap :: "nat \<Rightarrow> bool" where
  "is_leap y = (y mod 4 = 0 \<and> (y mod 100 \<noteq> 0 \<or> y mod 400 = 0))"

definition days_in_month :: "nat \<Rightarrow> nat \<Rightarrow> nat" where
  "days_in_month y m =
     (if m = 2 then (if is_leap y then 29 else 28)
      else if m = 4 \<or> m = 6 \<or> m = 9 \<or> m = 11 then 30
      else 31)"

text \<open>\<^verbatim>\<open>now - datetime.timedelta(days=1)\<close>: the same wall-clock time on the calendar day
  before.\<close>

definition minus_one_day :: "datetime \<Rightarrow> datetime" where
  "minus_one_day t =
     (if 1 < day t then t\<lparr>day := day t - 1\<rparr>
      else if 1 < month t then t\<lparr>month := month t - 1, day := days_in_month (year t) (month t - 1)\<rparr>
      else t\<lparr>year := year t - 1, month := 12, day := 31\<rparr>)"

text \<open>The POSIX flavour of \<^verbatim>\<open>os.path.join\<close> (two arguments), \<^verbatim>\<open>os.path.dirname\<close> and
  \<^verbatim>\<open>os.path.basename\<close>.\<close>

definition path_join :: "string \<Rightarrow> string \<Rightarrow> string" where
  "path_join a b =
     (if startswith b ''/'' then b
      else if a = [] \<or> last a = CHR ''/'' then a @ b
      else a @ ''/'' @ b)"

definition path_head :: "string \<Rightarrow> string" where
  "path_head p = rev (dropWhile (\<lambda>c. c \<noteq> CHR ''/'') (rev p))"

definition basename :: "string \<Rightarrow> string" where
  "basename p = rev (takeWhile (\<lambda>c. c \<noteq> CHR ''/'') (rev p))"

definition dirname :: "string \<Rightarrow> string" where
  "dirname p =
     (let head = path_head p in
      if head \<noteq> [] \<and> head \<noteq> replicate (length head) (CHR ''/'')
      then rev (dropWhile (\<lambda>c. c = CHR ''/'') (rev head))
      else head)"

definition get_current_file_date :: "datetime \<Rightarrow> string" where
  "get_current_file_date now =
     (let now' = (if hour now < 4 then minus_one_day now else now)
      in path_join ''departures'' (strftime_date now'))"

subsection \<open>The file system and the table written to it\<close>

text \<open>
  A file is kept as the sequence of rows written to it, each row the list of its field
  values in column order; the quoting of a field on disk belongs to the table library.
\<close>

type_synonym row = "string list"

record filesystem =
  dirs :: "string set"
  files :: "string \<rightharpoonup> row list"

definition path_exists :: "filesystem \<Rightarrow> string \<Rightarrow> bool" where
  "path_exists fs p = (p \<in> dirs fs \<or> files fs p \<noteq> None)"

text \<open>\<^verbatim>\<open>os.makedirs(directory, exist_ok=True)\<close> for a directory of one path component,
  which is what the writer passes.\<close>

definition makedirs :: "string \<Rightarrow> filesystem \<Rightarrow> exn + filesystem" where
  "makedirs d fs =
     (if d = [] then Inl FileNotFoundError
      else if files fs d \<noteq> None then Inl FileExistsError
      else Inr (fs\<lparr>dirs := insert d (dirs fs)\<rparr>))"

definition columns :: row where
  "columns = [''timestamp'', ''station'', ''destination'', ''line'', ''train_number'',
              ''departure_time'', ''status'', ''track'', ''car_sections'', ''occupancy_light'',
              ''occupancy_medium'', ''occupancy_heavy'', ''occupancy_no_data'']"

definition to_row :: "departure \<Rightarrow> row" where
  "to_row d = [timestamp d, station d, destination d, line d, train_number d,
               departure_time d, status d, track d, str_nat (car_sections d),
               str_nat (occupancy_light d), str_nat (occupancy_medium d),
               str_nat (occupancy_heavy d), str_nat (occupancy_no_data d)]"

text \<open>Opening a file for writing or appending needs its directory and fails on a
  directory.\<close>

definition open_error :: "filesystem \<Rightarrow> string \<Rightarrow> exn option" where
  "open_error fs filename =
     (if filename \<in> dirs fs then Some IsADirectoryError
      else if dirname filename \<noteq> [] \<and> dirname filename \<notin> dirs fs then Some FileNotFoundError
      else None)"

text \<open>\<^verbatim>\<open>df.to_csv(filename, index=False)\<close>: the file is created or truncated, and holds the
  header and the rows.\<close>

definition to_csv :: "row list \<Rightarrow> string \<Rightarrow> filesystem \<Rightarrow> exn + filesystem" where
  "to_csv df filename fs =
     (case open_error fs filename of
        Some e \<Rightarrow> Inl e
      | None \<Rightarrow> Inr (fs\<lparr>files := (files fs)(filename \<mapsto> columns # df)\<rparr>))"

text \<open>\<^verbatim>\<open>df.to_csv(filename, mode='a', header=False, index=False)\<close>: the rows are added
  after what the file holds.\<close>

definition to_csv_append :: "row list \<Rightarrow> string \<Rightarrow> filesystem \<Rightarrow> exn + filesystem" where
  "to_csv_append df filename fs =
     (case open_error fs filename of
        Some e \<Rightarrow> Inl e
      | None \<Rightarrow>
          Inr (fs\<lparr>files := (files fs)(filename \<mapsto>
                 (case files fs filename of None \<Rightarrow> [] | Some old \<Rightarrow> old) @ df)\<rparr>))"

definition save_to_csv :: "datetime \<Rightarrow> departure list \<Rightarrow> filesystem \<Rightarrow> exn + filesystem" where
  "save_to_csv now departures fs =
     (if departures = [] then Inr fs
      else
        (let date = get_current_file_date now;
             directory = dirname date;
             filename = path_join directory (''departures_'' @ basename date @ ''.csv'')
         in case makedirs directory fs of
              Inl e \<Rightarrow> Inl e
            | Inr fs1 \<Rightarrow>
                (let df = map to_row departures in
                 if path_exists fs1 filename then to_csv_append df filename fs1
                 else to_csv df filename fs1)))"

section \<open>Vocabulary of the statements\<close>

text \<open>The sections that \<^verbatim>\<open>parse_occupancy\<close> walks through for an entry, and the indicator
  elements it visits, section by section (an indicator element below two nested sections
  is visited once for each).\<close>

definition item_sections :: "node \<Rightarrow> node list" where
  "item_sections item =
     (case find_occupancy_section item of None \<Rightarrow> [] | Some sec \<Rightarrow> occupancy_sections sec)"

definition item_dots :: "node \<Rightarrow> node list" where
  "item_dots item = concat (map section_dots (item_sections item))"

datatype category = Light | Medium | Heavy | NoData

definition category_of :: "node \<Rightarrow> category" where
  "category_of dot =
     (if py_in ''background-color: rgb(11, 102, 35)'' (dot_style dot) then Light
      else if py_in ''background-color: rgb(255, 193, 7)'' (dot_style dot) then Medium
      else if py_in ''background-color: rgb(220, 53, 69)'' (dot_style dot) then Heavy
      else NoData)"

definition tally :: "category \<Rightarrow> node list \<Rightarrow> nat" where
  "tally c dots = length (filter (\<lambda>d. category_of d = c) dots)"

definition occupancy_sum :: "departure \<Rightarrow> nat" where
  "occupancy_sum d = occupancy_light d + occupancy_medium d + occupancy_heavy d + occupancy_no_data d"

definition one_dot :: "node \<Rightarrow> bool" where
  "one_dot section = (length (section_dots section) = 1)"

text \<open>The service day of a capture moment, and the path of its file as the writer
  builds it.\<close>

definition bucket_date :: "datetime \<Rightarrow> datetime" where
  "bucket_date now = (if hour now < 4 then minus_one_day now else now)"

definition csv_path :: "datetime \<Rightarrow> string" where
  "csv_path now = ''departures/departures_'' @ strftime_date (bucket_date now) @ ''.csv''"

text \<open>Calendar dates and their day number as \<^verbatim>\<open>date.toordinal\<close> counts it, 1 being
  1 January of year 1.\<close>

definition valid_date :: "datetime \<Rightarrow> bool" where
  "valid_date t =
     (1 \<le> year t \<and> 1 \<le> month t \<and> month t \<le> 12 \<and> 1 \<le> day t \<and>
      day t \<le> days_in_month (year t) (month t))"

definition days_before_year :: "nat \<Rightarrow> nat" where
  "days_before_year y = (y - 1) * 365 + (y - 1) div 4 - (y - 1) div 100 + (y - 1) div 400"

definition days_before_month :: "nat \<Rightarrow> nat \<Rightarrow> nat" where
  "days_before_month y m = sum_list (map (days_in_month y) [1..<m])"

definition toordinal :: "datetime \<Rightarrow> nat" where
  "toordinal t = days_before_year (year t) + days_before_month (year t) (month t) + day t"

text \<open>What a path holds after a write, and a write after an earlier one; a write that
  raised leaves its exception.\<close>

definition file_after :: "exn + filesystem \<Rightarrow> string \<Rightarrow> exn + row list option" where
  "file_after result p = (case result of Inl e \<Rightarrow> Inl e | Inr fs \<Rightarrow> Inr (files fs p))"

definition then_save :: "datetime \<Rightarrow> departure list \<Rightarrow> exn + filesystem \<Rightarrow> exn + filesystem" where
  "then_save now departures result =
     (case result of Inl e \<Rightarrow> Inl e | Inr fs \<Rightarrow> save_to_csv now departures fs)"

section \<open>Concrete pages\<close>

definition clock_0359 :: datetime where
  "clock_0359 = \<lparr>year = 2024, month = 3, day = 1, hour = 3, minute = 59, second = 0\<rparr>"

definition fixed_clock :: "nat \<Rightarrow> datetime" where
  "fixed_clock i = clock_0359"

definition dot_el :: "string \<Rightarrow> node" where
  "dot_el style = Tag ''li'' [(''data-v-8927eb98'', []), (''style'', style)] []"

definition section_el :: "node list \<Rightarrow> node" where
  "section_el dots = Tag ''li'' [(''data-v-b5fd45da'', [])] [Tag ''ol'' [] dots]"

definition occupancy_el :: "node list \<Rightarrow> node" where
  "occupancy_el sections =
     Tag ''ol'' [(''data-v-5d9f6349'', []),
                 (''class'', ''list-inline d-inline-block align-self-end m-0 cur--pointer'')]
       sections"

definition entry_el :: "string \<Rightarrow> node list \<Rightarrow> node" where
  "entry_el dest rest =
     Tag ''li'' [(''data-v-403a649a'', []), (''class'', ''border mb-3 rounded'')]
       ([Tag ''strong'' [(''data-v-403a649a'', [])] [NavigableString dest],
         Tag ''span'' [(''data-v-403a649a'', [])] [NavigableString ''NEC'']] @ rest)"

text \<open>An entry with one section that holds two indicator elements.\<close>

definition two_dot_item :: node where
  "two_dot_item =
     entry_el ''Newark Penn Station''
       [occupancy_el [section_el [dot_el ''background-color: rgb(11, 102, 35);'',
                                  dot_el ''background-color: rgb(220, 53, 69);'']]]"

definition two_dot_record :: departure where
  "two_dot_record =
     \<lparr>timestamp = ''2024-03-01 03:59:00'', station = ''Newark'',
      destination = ''Newark Penn Station'', line = ''NEC'', train_number = [],
      departure_time = [], status = [], track = [], car_sections = 1,
      occupancy_light = 1, occupancy_medium = 0, occupancy_heavy = 1,
      occupancy_no_data = 0\<rparr>"

text \<open>An entry with two sections of one indicator element each, the second in a colour
  that is none of the three known ones.\<close>

definition one_dot_item :: node where
  "one_dot_item =
     entry_el ''Newark Penn Station''
       [occupancy_el [section_el [dot_el ''background-color: rgb(255, 193, 7);''],
                      section_el [dot_el ''background-color: rgb(0, 0, 0);'']]]"

definition one_dot_record :: departure where
  "one_dot_record =
     \<lparr>timestamp = ''2024-03-01 03:59:00'', station = ''Newark'',
      destination = ''Newark Penn Station'', line = ''NEC'', train_number = [],
      departure_time = [], status = [], track = [], car_sections = 2,
      occupancy_light = 0, occupancy_medium = 1, occupancy_heavy = 0,
      occupancy_no_data = 1\<rparr>"

definition page_of :: "node list \<Rightarrow> response" where
  "page_of items = \<lparr>status_code = 200, parsed_text = Tag ''[document]'' [] [Tag ''ul'' [] items]\<rparr>"

definition web_two_dot :: "string \<Rightarrow> exn + response" where
  "web_two_dot url = Inr (page_of [two_dot_item])"

definition newark_item :: node where
  "newark_item = entry_el '' Newark Penn Station '' []"

definition hoboken_item :: node where
  "hoboken_item = entry_el ''Hoboken'' []"

text \<open>An entry to Hoboken without the line element.\<close>

definition hoboken_no_line_item :: node where
  "hoboken_no_line_item =
     Tag ''li'' [(''data-v-403a649a'', []), (''class'', ''border'')]
       [Tag ''strong'' [(''data-v-403a649a'', [])] [NavigableString ''Hoboken'']]"

text \<open>An entry without the destination element.\<close>

definition no_destination_item :: node where
  "no_destination_item =
     Tag ''li'' [(''data-v-403a649a'', []), (''class'', ''border'')]
       [Tag ''span'' [(''data-v-403a649a'', [])] [NavigableString ''NEC'']]"

definition newark_record :: departure where
  "newark_record =
     \<lparr>timestamp = ''2024-03-01 03:59:00'', station = ''Newark'',
      destination = ''Newark Penn Station'', line = ''NEC'', train_number = [],
      departure_time = [], status = [], track = [], car_sections = 0,
      occupancy_light = 0, occupancy_medium = 0, occupancy_heavy = 0,
      occupancy_no_data = 0\<rparr>"

definition hoboken_record :: departure where
  "hoboken_record = newark_record\<lparr>destination := ''Hoboken''\<rparr>"

definition web_down :: "string \<Rightarrow> exn + response" where
  "web_down url = Inl RequestException"

definition mixed_page :: response where
  "mixed_page = page_of [newark_item, no_destination_item, hoboken_item]"

definition web_mixed :: "string \<Rightarrow> exn + response" where
  "web_mixed url = Inr mixed_page"

text \<open>An entry to Montreal, written with the accented e (0xE9) and followed by a
  no-break space (0xA0), and a filter in capitals, with the accented capital (0xC9).\<close>

definition montreal_item :: node where
  "montreal_item = entry_el (''Montr'' @ [CHR 0xE9] @ ''al'' @ [CHR 0xA0]) []"

definition montreal_filter :: string where
  "montreal_filter = ''MONTR'' @ [CHR 0xC9] @ ''AL''"

definition montreal_record :: departure where
  "montreal_record = newark_record\<lparr>destination := ''Montr'' @ [CHR 0xE9] @ ''al''\<rparr>"

text \<open>Clock readings and file systems.\<close>

definition clock_0400 :: datetime where
  "clock_0400 = \<lparr>year = 2024, month = 3, day = 1, hour = 4, minute = 0, second = 0\<rparr>"

definition clock_2310 :: datetime where
  "clock_2310 = \<lparr>year = 2024, month = 2, day = 29, hour = 23, minute = 10, second = 0\<rparr>"

definition fs_empty :: filesystem where
  "fs_empty = \<lparr>dirs = {}, files = Map.empty\<rparr>"

definition fs_one :: filesystem where
  "fs_one = \<lparr>dirs = {''departures''},
             files = [''departures/departures_2024-02-29.csv'' \<mapsto> [columns, to_row newark_record]]\<rparr>"

section \<open>Occupancy counts\<close>

lemma count_dot_fields:
  "total_sections (count_dot d info) = total_sections info"
  "light (count_dot d info) = light info + tally Light [d]"
  "medium (count_dot d info) = medium info + tally Medium [d]"
  "heavy (count_dot d info) = heavy info + tally Heavy [d]"
  "no_data (count_dot d info) = no_data info + tally NoData [d]"
  by (simp_all add: count_dot_def tally_def category_of_def Let_def)

lemma tally_Cons: "tally c (d # ds) = tally c [d] + tally c ds"
  by (simp add: tally_def)

lemma tally_append: "tally c (xs @ ys) = tally c xs + tally c ys"
  by (simp add: tally_def)

lemma fold_count_dot:
  "total_sections (fold count_dot ds info) = total_sections info \<and>
   light (fold count_dot ds info) = light info + tally Light ds \<and>
   medium (fold count_dot ds info) = medium info + tally Medium ds \<and>
   heavy (fold count_dot ds info) = heavy info + tally Heavy ds \<and>
   no_data (fold count_dot ds info) = no_data info + tally NoData ds"
proof (induction ds arbitrary: info)
  case Nil
  show ?case by (simp add: tally_def)
next
  case (Cons d ds)
  show ?case
    using Cons.IH [of "count_dot d info"]
    by (simp add: count_dot_fields tally_Cons [of _ d ds])
qed

lemma fold_count_section:
  "total_sections (fold count_section ss info) = total_sections info \<and>
   light (fold count_section ss info) = light info + tally Light (concat (map section_dots ss)) \<and>
   medium (fold count_section ss info) = medium info + tally Medium (concat (map section_dots ss)) \<and>
   heavy (fold count_section ss info) = heavy info + tally Heavy (concat (map section_dots ss)) \<and>
   no_data (fold count_section ss info) = no_data info + tally NoData (concat (map section_dots ss))"
proof (induction ss arbitrary: info)
  case Nil
  show ?case by (simp add: tally_def)
next
  case (Cons s ss)
  show ?case
    using Cons.IH [of "count_section s info"] fold_count_dot [of "section_dots s" info]
    by (simp add: count_section_def tally_append)
qed

lemma parse_occupancy_fields:
  "total_sections (parse_occupancy item) = length (item_sections item)"
  "light (parse_occupancy item) = tally Light (item_dots item)"
  "medium (parse_occupancy item) = tally Medium (item_dots item)"
  "heavy (parse_occupancy item) = tally Heavy (item_dots item)"
  "no_data (parse_occupancy item) = tally NoData (item_dots item)"
  using fold_count_section [of "occupancy_sections (the (find_occupancy_section item))"
      "occupancy_zero\<lparr>total_sections := length (occupancy_sections (the (find_occupancy_section item)))\<rparr>"]
  by (auto simp add: parse_occupancy_def item_sections_def item_dots_def occupancy_zero_def
      tally_def Let_def split: option.splits)

lemma tally_total:
  "tally Light ds + tally Medium ds + tally Heavy ds + tally NoData ds = length ds"
proof (induction ds)
  case Nil
  show ?case by (simp add: tally_def)
next
  case (Cons d ds)
  have "tally Light [d] + tally Medium [d] + tally Heavy [d] + tally NoData [d] = 1"
    by (cases "category_of d") (simp_all add: tally_def)
  with Cons show ?case
    by (simp add: tally_Cons [of _ d ds])
qed

lemma length_concat_one:
  "list_all (\<lambda>x. length (f x) = 1) xs \<Longrightarrow> length (concat (map f xs)) = length xs"
  by (induction xs) simp_all

lemma parse_entry_occupancy:
  assumes "parse_entry destination_filter now station_name item = Inr (Some d)"
  shows "car_sections d = total_sections (parse_occupancy item)"
    and "occupancy_light d = light (parse_occupancy item)"
    and "occupancy_medium d = medium (parse_occupancy item)"
    and "occupancy_heavy d = heavy (parse_occupancy item)"
    and "occupancy_no_data d = no_data (parse_occupancy item)"
  using assms
  by (auto simp add: parse_entry_def Let_def split: option.splits if_splits)

text \<open>
  C10.  Whatever the entry, each indicator element that \<^verbatim>\<open>parse_occupancy\<close> visits falls in
  exactly one of the four categories, chosen by the colour in its style (light, else
  medium, else heavy, else no data): every counter is the number of visited elements of
  its category, and the four counters add up to the number of visited elements.
\<close>

theorem parse_occupancy_partitions_indicators:
  "light (parse_occupancy item) = tally Light (item_dots item) \<and>
   medium (parse_occupancy item) = tally Medium (item_dots item) \<and>
   heavy (parse_occupancy item) = tally Heavy (item_dots item) \<and>
   no_data (parse_occupancy item) = tally NoData (item_dots item) \<and>
   light (parse_occupancy item) + medium (parse_occupancy item) + heavy (parse_occupancy item)
     + no_data (parse_occupancy item) = length (item_dots item)"
  using tally_total [of "item_dots item"]
  by (simp add: parse_occupancy_fields)

theorem parse_occupancy_partitions_indicators_witness:
  "item_dots one_dot_item =
     [dot_el ''background-color: rgb(255, 193, 7);'', dot_el ''background-color: rgb(0, 0, 0);''] \<and>
   light (parse_occupancy one_dot_item) = 0 \<and>
   medium (parse_occupancy one_dot_item) = 1 \<and>
   heavy (parse_occupancy one_dot_item) = 0 \<and>
   no_data (parse_occupancy one_dot_item) = 1 \<and>
   light (parse_occupancy one_dot_item) + medium (parse_occupancy one_dot_item)
     + heavy (parse_occupancy one_dot_item) + no_data (parse_occupancy one_dot_item) = 2"
proof -
  have dots: "item_dots one_dot_item =
     [dot_el ''background-color: rgb(255, 193, 7);'', dot_el ''background-color: rgb(0, 0, 0);'']"
    by code_simp
  have cats: "category_of (dot_el ''background-color: rgb(255, 193, 7);'') = Medium"
    "category_of (dot_el ''background-color: rgb(0, 0, 0);'') = NoData"
    by code_simp+
  show ?thesis
    using parse_occupancy_partitions_indicators [of one_dot_item]
    by (simp add: dots cats tally_def)
qed

text \<open>
  C1, as the code has it.  In a record built from an entry, the four occupancy counts add
  up to the number of indicator elements visited in the entry's sections, and
  \<open>car_sections\<close> is the number of sections; the two agree when every section holds
  exactly one indicator element.
\<close>

theorem record_occupancy_sum:
  assumes "parse_entry destination_filter now station_name item = Inr (Some d)"
  shows "occupancy_sum d = length (item_dots item) \<and>
         car_sections d = length (item_sections item) \<and>
         (list_all one_dot (item_sections item) \<longrightarrow> occupancy_sum d = car_sections d)"
proof -
  have total: "occupancy_sum d = length (item_dots item)"
    using tally_total [of "item_dots item"]
    by (simp add: occupancy_sum_def parse_entry_occupancy [OF assms] parse_occupancy_fields)
  have sections: "car_sections d = length (item_sections item)"
    by (simp add: parse_entry_occupancy [OF assms] parse_occupancy_fields)
  have "length (item_dots item) = length (item_sections item)"
    if "list_all one_dot (item_sections item)"
    using that length_concat_one [of section_dots "item_sections item"]
    by (simp add: item_dots_def one_dot_def [abs_def])
  with total sections show ?thesis by simp
qed

theorem record_occupancy_sum_witness:
  "parse_entry None clock_0359 ''Newark'' one_dot_item = Inr (Some one_dot_record) \<and>
   list_all one_dot (item_sections one_dot_item) \<and>
   occupancy_sum one_dot_record = 2 \<and>
   car_sections one_dot_record = 2 \<and>
   occupancy_sum one_dot_record = car_sections one_dot_record"
proof -
  have entry: "parse_entry None clock_0359 ''Newark'' one_dot_item = Inr (Some one_dot_record)"
    by code_simp
  have ones: "list_all one_dot (item_sections one_dot_item)"
    by code_simp
  have "car_sections one_dot_record = 2"
    by (simp add: one_dot_record_def)
  with record_occupancy_sum [OF entry] entry ones show ?thesis
    by simp
qed

text \<open>
  C1, as the specification has it, fails: the entry \<open>two_dot_item\<close> has one section with
  two indicator elements, and its record counts one section and two classifications.
\<close>

theorem record_occupancy_sum_counterexample:
  "scrape_departures None web_two_dot fixed_clock ''https://www.njtransit.com/dv-to/Newark%20Penn%20Station'' ''Newark''
     = Inr [two_dot_record] \<and>
   occupancy_light two_dot_record + occupancy_medium two_dot_record
     + occupancy_heavy two_dot_record + occupancy_no_data two_dot_record
     \<noteq> car_sections two_dot_record"
proof -
  have "scrape_departures None web_two_dot fixed_clock ''https://www.njtransit.com/dv-to/Newark%20Penn%20Station'' ''Newark''
     = Inr [two_dot_record]"
    by code_simp
  then show ?thesis
    by (simp add: two_dot_record_def)
qed

section \<open>Entries, filter and failures\<close>

lemma strip_decompose:
  "s = takeWhile isspace s @ strip s @ rev (takeWhile isspace (rev (dropWhile isspace s)))"
proof -
  let ?t = "dropWhile isspace s"
  have "rev (takeWhile isspace (rev ?t) @ dropWhile isspace (rev ?t)) = ?t"
    by (simp only: takeWhile_dropWhile_id rev_rev_ident)
  then have "?t = strip s @ rev (takeWhile isspace (rev ?t))"
    by (simp only: rev_append strip_def)
  moreover have "s = takeWhile isspace s @ ?t"
    by simp
  ultimately show ?thesis
    by simp
qed

lemma strip_ends:
  assumes "strip s \<noteq> []"
  shows "\<not> isspace (hd (strip s)) \<and> \<not> isspace (last (strip s))"
proof -
  let ?t = "dropWhile isspace s"
  let ?u = "dropWhile isspace (rev ?t)"
  have u: "?u \<noteq> []"
    using assms by (simp add: strip_def)
  have t: "?t \<noteq> []"
  proof
    assume "?t = []"
    then have "?u = []"
      by (simp only: rev.simps dropWhile.simps)
    with u show False
      by simp
  qed
  have last_ok: "\<not> isspace (hd ?u)"
    using u by (rule hd_dropWhile)
  have "last ?u = last (rev ?t)"
    using u by (metis last_appendR takeWhile_dropWhile_id)
  also have "\<dots> = hd ?t"
    using t by (simp add: last_rev)
  finally have "\<not> isspace (last ?u)"
    using hd_dropWhile [OF t] by simp
  with last_ok u show ?thesis
    by (simp add: strip_def hd_rev last_rev)
qed

lemma strip_spaces:
  "list_all isspace (takeWhile isspace s) \<and>
   list_all isspace (rev (takeWhile isspace (rev (dropWhile isspace s))))"
  by (auto simp add: list_all_iff dest: set_takeWhileD)

lemma lower_char_letters: "map lower_char upper_letters = lower_letters"
  by code_simp

lemma lower_char_other: "c \<notin> set upper_letters \<Longrightarrow> lower_char c = c"
proof -
  assume "c \<notin> set upper_letters"
  moreover have "length upper_letters = length lower_letters"
    by (simp add: upper_letters_def lower_letters_def)
  ultimately have "map_of (zip upper_letters lower_letters) c = None"
    by (simp add: map_of_zip_is_None)
  then show ?thesis
    by (simp add: lower_char_def)
qed

lemma py_in_iff: "py_in sub s \<longleftrightarrow> (\<exists>p q. s = p @ sub @ q)"
proof (induction s)
  case Nil
  show ?case by simp
next
  case (Cons c cs)
  have "startswith (c # cs) sub \<longleftrightarrow> (\<exists>q. c # cs = sub @ q)"
    unfolding startswith_def
    by (metis append_eq_conv_conj append_take_drop_id)
  moreover have "(\<exists>p q. c # cs = p @ sub @ q) \<longleftrightarrow>
      (\<exists>q. c # cs = sub @ q) \<or> (\<exists>p q. cs = p @ sub @ q)"
  proof
    assume "\<exists>p q. c # cs = p @ sub @ q"
    then obtain p q where pq: "c # cs = p @ sub @ q" by blast
    show "(\<exists>q. c # cs = sub @ q) \<or> (\<exists>p q. cs = p @ sub @ q)"
    proof (cases p)
      case Nil
      with pq show ?thesis by auto
    next
      case (Cons x p')
      with pq have "cs = p' @ sub @ q" by simp
      then show ?thesis by blast
    qed
  next
    assume "(\<exists>q. c # cs = sub @ q) \<or> (\<exists>p q. cs = p @ sub @ q)"
    then show "\<exists>p q. c # cs = p @ sub @ q"
    proof
      assume "\<exists>q. c # cs = sub @ q"
      then obtain q where "c # cs = [] @ sub @ q" by auto
      then show ?thesis by blast
    next
      assume "\<exists>p q. cs = p @ sub @ q"
      then obtain p q where "c # cs = (c # p) @ sub @ q" by auto
      then show ?thesis by blast
    qed
  qed
  ultimately show ?case
    using Cons.IH by simp
qed

lemma parse_entry_unfiltered_not_skipped:
  "parse_entry None now station_name item \<noteq> Inr None"
  by (simp add: parse_entry_def filtered_out_def Let_def split: option.splits)

lemma parse_entry_filter:
  assumes "find_tag item ''strong'' [(''data-v-403a649a'', IsPresent)] = Some dest_el"
  shows "parse_entry destination_filter now station_name item =
     (if filtered_out destination_filter (strip (get_text dest_el)) then Inr None
      else parse_entry None now station_name item)"
  using assms
  by (simp add: parse_entry_def filtered_out_def Let_def split: option.splits)



lemma parse_entry_empty_filter:
  "parse_entry (Some []) now station_name item = parse_entry None now station_name item"
proof -
  have "filtered_out (Some []) = filtered_out None"
    by (rule ext) (simp add: filtered_out_def)
  then show ?thesis
    by (simp only: parse_entry_def)
qed

lemma scrape_items_empty_filter:
  "scrape_items (Some []) clock station_name i items = scrape_items None clock station_name i items"
  by (induction items arbitrary: i)
    (simp_all add: parse_entry_empty_filter split: sum.splits option.splits)



lemma scrape_items_append:
  "scrape_items f clock station_name i (xs @ ys) =
     scrape_items f clock station_name i xs @ scrape_items f clock station_name (i + length xs) ys"
  by (induction xs arbitrary: i) (simp_all split: sum.splits option.splits)

text \<open>
  C5.  With a non-empty destination filter, an entry whose destination element is found
  is kept exactly when the lower-cased filter occurs as a contiguous run in the
  lower-cased, stripped destination text: then it is processed as it is without a
  filter; otherwise it is dropped at once, with neither a record nor an error, whatever
  the rest of the entry holds.
\<close>

theorem destination_filter_rule:
  assumes "f \<noteq> []"
    and "find_tag item ''strong'' [(''data-v-403a649a'', IsPresent)] = Some dest_el"
  shows "parse_entry (Some f) now station_name item =
           (if py_in (lower f) (lower (strip (get_text dest_el)))
            then parse_entry None now station_name item
            else Inr None) \<and>
         parse_entry None now station_name item \<noteq> Inr None \<and>
         (py_in (lower f) (lower (strip (get_text dest_el))) \<longleftrightarrow>
            (\<exists>p q. lower (strip (get_text dest_el)) = p @ lower f @ q))"
  using assms parse_entry_filter [OF assms(2), of "Some f" now station_name]
    py_in_iff [of "lower f" "lower (strip (get_text dest_el))"]
  by (simp add: filtered_out_def parse_entry_unfiltered_not_skipped)

text \<open>
  C5 on an entry to Newark Penn Station under the filters \<^verbatim>\<open>newark\<close>, \<^verbatim>\<open>Newark\<close> and
  \<^verbatim>\<open>NEWARK\<close>, which all keep it; on an entry to Hoboken that lacks its line element,
  which \<^verbatim>\<open>Newark\<close> and \<^verbatim>\<open>newark\<close> drop without an error; and on the entry to Montreal
  with its accented letter and no-break space, under the filter in capitals.
\<close>

theorem destination_filter_rule_witness:
  "''newark'' \<noteq> [] \<and> ''Newark'' \<noteq> [] \<and> ''NEWARK'' \<noteq> [] \<and> montreal_filter \<noteq> [] \<and>
   find_tag newark_item ''strong'' [(''data-v-403a649a'', IsPresent)]
     = Some (Tag ''strong'' [(''data-v-403a649a'', [])] [NavigableString '' Newark Penn Station '']) \<and>
   lower (strip '' Newark Penn Station '') = ''newark penn station'' \<and>
   lower ''NEWARK'' = ''newark'' \<and>
   parse_entry (Some ''newark'') clock_0359 ''Newark'' newark_item = Inr (Some newark_record) \<and>
   parse_entry (Some ''Newark'') clock_0359 ''Newark'' newark_item = Inr (Some newark_record) \<and>
   parse_entry (Some ''NEWARK'') clock_0359 ''Newark'' newark_item = Inr (Some newark_record) \<and>
   find_tag hoboken_no_line_item ''strong'' [(''data-v-403a649a'', IsPresent)]
     = Some (Tag ''strong'' [(''data-v-403a649a'', [])] [NavigableString ''Hoboken'']) \<and>
   parse_entry (Some ''Newark'') clock_0359 ''Newark'' hoboken_no_line_item = Inr None \<and>
   parse_entry (Some ''newark'') clock_0359 ''Newark'' hoboken_no_line_item = Inr None \<and>
   parse_entry None clock_0359 ''Newark'' hoboken_no_line_item = Inl AttributeError \<and>
   find_tag montreal_item ''strong'' [(''data-v-403a649a'', IsPresent)]
     = Some (Tag ''strong'' [(''data-v-403a649a'', [])]
               [NavigableString (''Montr'' @ [CHR 0xE9] @ ''al'' @ [CHR 0xA0])]) \<and>
   lower montreal_filter = ''montr'' @ [CHR 0xE9] @ ''al'' \<and>
   lower (strip (''Montr'' @ [CHR 0xE9] @ ''al'' @ [CHR 0xA0])) = ''montr'' @ [CHR 0xE9] @ ''al'' \<and>
   parse_entry (Some montreal_filter) clock_0359 ''Newark'' montreal_item = Inr (Some montreal_record)"
proof -
  have f1: "''newark'' \<noteq> []" and f2: "''Newark'' \<noteq> []" and f3: "''NEWARK'' \<noteq> []"
    by simp_all
  have f4: "montreal_filter \<noteq> []"
    by (simp add: montreal_filter_def)
  have d1: "find_tag newark_item ''strong'' [(''data-v-403a649a'', IsPresent)]
     = Some (Tag ''strong'' [(''data-v-403a649a'', [])] [NavigableString '' Newark Penn Station ''])"
    by code_simp
  have d2: "find_tag hoboken_no_line_item ''strong'' [(''data-v-403a649a'', IsPresent)]
     = Some (Tag ''strong'' [(''data-v-403a649a'', [])] [NavigableString ''Hoboken''])"
    by code_simp
  have d3: "find_tag montreal_item ''strong'' [(''data-v-403a649a'', IsPresent)]
     = Some (Tag ''strong'' [(''data-v-403a649a'', [])]
               [NavigableString (''Montr'' @ [CHR 0xE9] @ ''al'' @ [CHR 0xA0])])"
    by code_simp
  have l1: "lower (strip '' Newark Penn Station '') = ''newark penn station''"
    by code_simp
  have l2: "lower ''newark'' = ''newark''" "lower ''Newark'' = ''newark''"
    "lower ''NEWARK'' = ''newark''"
    by code_simp+
  have l3: "lower (strip ''Hoboken'') = ''hoboken''"
    by code_simp
  have l4: "lower montreal_filter = ''montr'' @ [CHR 0xE9] @ ''al''"
    by code_simp
  have l5: "lower (strip (''Montr'' @ [CHR 0xE9] @ ''al'' @ [CHR 0xA0])) = ''montr'' @ [CHR 0xE9] @ ''al''"
    by code_simp
  have s1: "py_in ''newark'' ''newark penn station''"
    by code_simp
  have s2: "\<not> py_in ''newark'' ''hoboken''"
    by code_simp
  have s3: "py_in (''montr'' @ [CHR 0xE9] @ ''al'') (''montr'' @ [CHR 0xE9] @ ''al'')"
    by code_simp
  have u1: "parse_entry None clock_0359 ''Newark'' newark_item = Inr (Some newark_record)"
    by code_simp
  have u2: "parse_entry None clock_0359 ''Newark'' hoboken_no_line_item = Inl AttributeError"
    by code_simp
  have u3: "parse_entry None clock_0359 ''Newark'' montreal_item = Inr (Some montreal_record)"
    by code_simp
  have newark: "parse_entry (Some ''newark'') clock_0359 ''Newark'' newark_item = Inr (Some newark_record)"
    "parse_entry (Some ''Newark'') clock_0359 ''Newark'' newark_item = Inr (Some newark_record)"
    "parse_entry (Some ''NEWARK'') clock_0359 ''Newark'' newark_item = Inr (Some newark_record)"
    using destination_filter_rule [OF f1 d1, of clock_0359 "''Newark''"]
      destination_filter_rule [OF f2 d1, of clock_0359 "''Newark''"]
      destination_filter_rule [OF f3 d1, of clock_0359 "''Newark''"]
    by (simp_all only: get_text.simps list.map concat.simps append_Nil2 l1 l2 s1 u1 if_True)
  have hoboken: "parse_entry (Some ''Newark'') clock_0359 ''Newark'' hoboken_no_line_item = Inr None"
    "parse_entry (Some ''newark'') clock_0359 ''Newark'' hoboken_no_line_item = Inr None"
    using destination_filter_rule [OF f2 d2, of clock_0359 "''Newark''"]
      destination_filter_rule [OF f1 d2, of clock_0359 "''Newark''"]
    by (simp_all only: get_text.simps list.map concat.simps append_Nil2 l2 l3 s2 if_False)
  have montreal: "parse_entry (Some montreal_filter) clock_0359 ''Newark'' montreal_item = Inr (Some montreal_record)"
    using destination_filter_rule [OF f4 d3, of clock_0359 "''Newark''"]
    by (simp only: get_text.simps list.map concat.simps append_Nil2 l4 l5 s3 u3 if_True)
  from f1 f2 f3 f4 d1 d2 d3 l1 l2 l4 l5 u2 newark hoboken montreal show ?thesis
    by simp
qed

text \<open>
  C9.  The empty string as destination filter is the same as no filter: every entry is
  processed as without a filter, none is dropped by the filter, and the station's result
  is the same.
\<close>

theorem empty_filter_is_no_filter:
  "parse_entry (Some []) now station_name item = parse_entry None now station_name item \<and>
   parse_entry (Some []) now station_name item \<noteq> Inr None \<and>
   scrape_departures (Some []) requests_get clock url station_name =
     scrape_departures None requests_get clock url station_name"
  by (simp add: parse_entry_empty_filter parse_entry_unfiltered_not_skipped
      scrape_departures_def scrape_departures_body_def scrape_items_empty_filter
      split: sum.splits)

text \<open>C9 on a page with an entry to Newark Penn Station and an entry to Hoboken.\<close>

theorem empty_filter_is_no_filter_witness:
  "parse_entry (Some []) clock_0359 ''Newark'' hoboken_item = Inr (Some hoboken_record) \<and>
   scrape_departures (Some []) web_mixed fixed_clock ''u'' ''Newark'' = Inr [newark_record, hoboken_record]"
proof -
  have u1: "parse_entry None clock_0359 ''Newark'' hoboken_item = Inr (Some hoboken_record)"
    by code_simp
  have u2: "scrape_departures None web_mixed fixed_clock ''u'' ''Newark'' = Inr [newark_record, hoboken_record]"
    by code_simp
  show ?thesis
    using empty_filter_is_no_filter [of clock_0359 "''Newark''" hoboken_item web_mixed fixed_clock "''u''"]
      u1 u2
    by simp
qed

text \<open>
  C3.  \<^verbatim>\<open>scrape_departures\<close> always returns a list.  When the request raises, or the
  status check does, the list is empty.  When the body of one entry raises, the result
  is what the entries before it give followed by what the entries after it give.
\<close>

theorem scrape_departures_contains_failures:
  "(\<exists>departures. scrape_departures f requests_get clock url station_name = Inr departures) \<and>
   (requests_get url = Inl e \<longrightarrow>
      scrape_departures f requests_get clock url station_name = Inr []) \<and>
   (requests_get url = Inr r \<and> raise_for_status r = Inl e \<longrightarrow>
      scrape_departures f requests_get clock url station_name = Inr []) \<and>
   (requests_get url = Inr r \<and> raise_for_status r = Inr () \<and>
    departure_items (parsed_text r) = before @ bad # after \<and>
    parse_entry f (clock (length before)) station_name bad = Inl e \<longrightarrow>
      scrape_departures f requests_get clock url station_name =
        Inr (scrape_items f clock station_name 0 before @
             scrape_items f clock station_name (Suc (length before)) after))"
  by (auto simp add: scrape_departures_def scrape_departures_body_def scrape_items_append
      split: sum.splits)

text \<open>C3 on a request that fails, and on a page whose second entry of three has no
  destination element.\<close>

theorem scrape_departures_contains_failures_witness:
  "web_down ''u'' = Inl RequestException \<and>
   scrape_departures None web_down fixed_clock ''u'' ''Newark'' = Inr [] \<and>
   web_mixed ''u'' = Inr mixed_page \<and>
   raise_for_status mixed_page = Inr () \<and>
   departure_items (parsed_text mixed_page) = [newark_item] @ no_destination_item # [hoboken_item] \<and>
   parse_entry None (fixed_clock (length [newark_item])) ''Newark'' no_destination_item = Inl AttributeError \<and>
   scrape_departures None web_mixed fixed_clock ''u'' ''Newark'' = Inr [newark_record, hoboken_record]"
proof -
  have down: "web_down ''u'' = Inl RequestException"
    by (simp add: web_down_def)
  have up: "web_mixed ''u'' = Inr mixed_page"
    by (simp add: web_mixed_def)
  have ok: "raise_for_status mixed_page = Inr ()"
    by code_simp
  have items: "departure_items (parsed_text mixed_page) = [newark_item] @ no_destination_item # [hoboken_item]"
    by code_simp
  have bad: "parse_entry None (fixed_clock (length [newark_item])) ''Newark'' no_destination_item = Inl AttributeError"
    by code_simp
  have before: "scrape_items None fixed_clock ''Newark'' 0 [newark_item] = [newark_record]"
    by code_simp
  have after: "scrape_items None fixed_clock ''Newark'' (Suc (length [newark_item])) [hoboken_item] = [hoboken_record]"
    by code_simp
  show ?thesis
    using scrape_departures_contains_failures
        [where requests_get = web_down and url = "''u''" and e = RequestException and f = None
           and clock = fixed_clock and station_name = "''Newark''"]
      scrape_departures_contains_failures
        [where requests_get = web_mixed and url = "''u''" and e = AttributeError and f = None
           and clock = fixed_clock and station_name = "''Newark''" and r = mixed_page
           and before = "[newark_item]" and bad = no_destination_item and after = "[hoboken_item]"]
      down up ok items bad before after
    by simp
qed

text \<open>
  C7.  An entry without the occupancy list gets the zero-filled summary, and, its
  destination passing the filter and its line element being there, a record whose five
  occupancy fields are zero.
\<close>

theorem no_occupancy_zero_filled:
  assumes "find_occupancy_section item = None"
    and "find_tag item ''strong'' [(''data-v-403a649a'', IsPresent)] = Some dest_el"
    and "\<not> filtered_out destination_filter (strip (get_text dest_el))"
    and "find_tag item ''span'' [(''data-v-403a649a'', IsPresent)] = Some line_el"
  shows "parse_occupancy item =
           \<lparr>total_sections = 0, light = 0, medium = 0, heavy = 0, no_data = 0\<rparr> \<and>
         (\<exists>d. parse_entry destination_filter now station_name item = Inr (Some d) \<and>
              car_sections d = 0 \<and> occupancy_light d = 0 \<and> occupancy_medium d = 0 \<and>
              occupancy_heavy d = 0 \<and> occupancy_no_data d = 0)"
  using assms
  by (simp add: parse_occupancy_def occupancy_zero_def parse_entry_def Let_def)

text \<open>C7 on an entry to Newark Penn Station without occupancy markup.\<close>

theorem no_occupancy_zero_filled_witness:
  "find_occupancy_section newark_item = None \<and>
   find_tag newark_item ''strong'' [(''data-v-403a649a'', IsPresent)]
     = Some (Tag ''strong'' [(''data-v-403a649a'', [])] [NavigableString '' Newark Penn Station '']) \<and>
   \<not> filtered_out (Some ''newark'') (strip (get_text (Tag ''strong'' [(''data-v-403a649a'', [])] [NavigableString '' Newark Penn Station '']))) \<and>
   find_tag newark_item ''span'' [(''data-v-403a649a'', IsPresent)]
     = Some (Tag ''span'' [(''data-v-403a649a'', [])] [NavigableString ''NEC'']) \<and>
   parse_occupancy newark_item = \<lparr>total_sections = 0, light = 0, medium = 0, heavy = 0, no_data = 0\<rparr> \<and>
   parse_entry (Some ''newark'') clock_0359 ''Newark'' newark_item = Inr (Some newark_record)"
proof -
  have h1: "find_occupancy_section newark_item = None"
    by code_simp
  have h2: "find_tag newark_item ''strong'' [(''data-v-403a649a'', IsPresent)]
     = Some (Tag ''strong'' [(''data-v-403a649a'', [])] [NavigableString '' Newark Penn Station ''])"
    by code_simp
  have h3: "\<not> filtered_out (Some ''newark'') (strip (get_text (Tag ''strong'' [(''data-v-403a649a'', [])] [NavigableString '' Newark Penn Station ''])))"
    by code_simp
  have h4: "find_tag newark_item ''span'' [(''data-v-403a649a'', IsPresent)]
     = Some (Tag ''span'' [(''data-v-403a649a'', [])] [NavigableString ''NEC''])"
    by code_simp
  have r: "parse_entry (Some ''newark'') clock_0359 ''Newark'' newark_item = Inr (Some newark_record)"
    by code_simp
  show ?thesis
    using no_occupancy_zero_filled [OF h1 h2 h3 h4, of clock_0359 "''Newark''"] h1 h2 h3 h4 r
    by simp
qed

section \<open>Paths of the daily file\<close>

lemma digit_char_digit: "d < 10 \<Longrightarrow> digit_char d \<in> set ''0123456789''"
  unfolding digit_char_def by (rule nth_mem) simp

lemma str_nat_digits: "set (str_nat n) \<subseteq> set ''0123456789''"
proof (induction n rule: str_nat.induct)
  case (1 n)
  show ?case
  proof (cases "n < 10")
    case True
    then show ?thesis
      using digit_char_digit [of n] by (subst str_nat.simps) simp
  next
    case False
    have "digit_char (n mod 10) \<in> set ''0123456789''"
      by (rule digit_char_digit) simp
    with False "1.IH" show ?thesis
      by (subst str_nat.simps) simp
  qed
qed

lemma zfill_digits: "set (zfill w (str_nat n)) \<subseteq> set ''0123456789''"
  using str_nat_digits [of n] by (auto simp add: zfill_def)

lemma slash_notin_strftime_date: "CHR ''/'' \<notin> set (strftime_date t)"
  using zfill_digits [of 4 "year t"] zfill_digits [of 2 "month t"] zfill_digits [of 2 "day t"]
  by (auto simp add: strftime_date_def)

lemma path_join_plain:
  assumes "a \<noteq> []" and "last a \<noteq> CHR ''/''" and "CHR ''/'' \<notin> set b"
  shows "path_join a b = a @ ''/'' @ b"
proof -
  have "\<not> startswith b ''/''"
    using assms(3) by (cases b) (auto simp add: startswith_def)
  with assms show ?thesis
    by (simp add: path_join_def)
qed

lemma path_head_plain:
  assumes "CHR ''/'' \<notin> set b"
  shows "path_head (a @ ''/'' @ b) = a @ ''/''"
proof -
  have "dropWhile (\<lambda>c. c \<noteq> CHR ''/'') (rev b @ CHR ''/'' # rev a) = CHR ''/'' # rev a"
    using assms by (subst dropWhile_append3) auto
  then show ?thesis
    by (simp add: path_head_def)
qed

lemma dirname_plain:
  assumes "CHR ''/'' \<notin> set b" and "a \<noteq> []" and "last a \<noteq> CHR ''/''"
  shows "dirname (a @ ''/'' @ b) = a"
proof -
  have neq: "a @ ''/'' \<noteq> replicate (length (a @ ''/'')) (CHR ''/'')"
  proof
    assume "a @ ''/'' = replicate (length (a @ ''/'')) (CHR ''/'')"
    then have "set (a @ ''/'') \<subseteq> {CHR ''/''}"
      by (metis set_replicate_conv_if empty_subsetI subset_refl)
    then have "set a \<subseteq> {CHR ''/''}"
      by simp
    with assms(2) have "last a = CHR ''/''"
      by (metis last_in_set subsetD singletonD)
    with assms(3) show False by simp
  qed
  have "dropWhile (\<lambda>c. c = CHR ''/'') (rev a) = rev a"
    using assms(2,3) by (cases "rev a") (auto simp add: last_rev [symmetric] hd_rev)
  with neq show ?thesis
    using path_head_plain [OF assms(1), of a]
    by (simp add: dirname_def Let_def del: replicate.simps)
qed

lemma basename_plain:
  assumes "CHR ''/'' \<notin> set b"
  shows "basename (a @ ''/'' @ b) = b"
proof -
  have "takeWhile (\<lambda>c. c \<noteq> CHR ''/'') (rev b @ CHR ''/'' # rev a) = rev b"
    using assms by (subst takeWhile_append2) auto
  then show ?thesis
    by (simp add: basename_def)
qed

lemma get_current_file_date_eq:
  "get_current_file_date now = ''departures/'' @ strftime_date (bucket_date now)"
  using path_join_plain [of "''departures''" "strftime_date (bucket_date now)"]
    slash_notin_strftime_date [of "bucket_date now"]
  by (simp add: get_current_file_date_def bucket_date_def Let_def)

lemma writer_paths:
  "dirname (get_current_file_date now) = ''departures''"
  "path_join ''departures''
     (''departures_'' @ basename (get_current_file_date now) @ ''.csv'') = csv_path now"
proof -
  let ?d = "strftime_date (bucket_date now)"
  have slash: "CHR ''/'' \<notin> set ?d"
    by (rule slash_notin_strftime_date)
  show dir: "dirname (get_current_file_date now) = ''departures''"
    using dirname_plain [OF slash, of "''departures''"]
    by (simp add: get_current_file_date_eq)
  have base: "basename (get_current_file_date now) = ?d"
    using basename_plain [OF slash, of "''departures''"]
    by (simp add: get_current_file_date_eq)
  have "CHR ''/'' \<notin> set (''departures_'' @ ?d @ ''.csv'')"
    using slash by simp
  then have "path_join ''departures'' (''departures_'' @ ?d @ ''.csv'')
      = ''departures'' @ ''/'' @ (''departures_'' @ ?d @ ''.csv'')"
    by (intro path_join_plain) simp_all
  then show "path_join ''departures''
     (''departures_'' @ basename (get_current_file_date now) @ ''.csv'') = csv_path now"
    by (simp add: base csv_path_def)
qed

lemma dirname_csv_path: "dirname (csv_path now) = ''departures''"
proof -
  have "CHR ''/'' \<notin> set (''departures_'' @ strftime_date (bucket_date now) @ ''.csv'')"
    using slash_notin_strftime_date [of "bucket_date now"] by simp
  then have "dirname (''departures'' @ ''/'' @ (''departures_'' @ strftime_date (bucket_date now) @ ''.csv''))
      = ''departures''"
    by (intro dirname_plain) simp_all
  then show ?thesis
    by (simp add: csv_path_def)
qed

lemma csv_path_not_departures: "csv_path now \<noteq> ''departures''"
  by (simp add: csv_path_def)

lemma save_to_csv_nonempty:
  assumes "departures \<noteq> []"
  shows "save_to_csv now departures fs =
     (if files fs ''departures'' \<noteq> None then Inl FileExistsError
      else if csv_path now \<in> dirs fs then Inl IsADirectoryError
      else Inr (fs\<lparr>dirs := insert ''departures'' (dirs fs),
                    files := (files fs)(csv_path now \<mapsto>
                      (case files fs (csv_path now) of
                         None \<Rightarrow> [columns]
                       | Some old \<Rightarrow> old) @ map to_row departures)\<rparr>))"
proof -
  have "save_to_csv now departures fs =
     (case makedirs ''departures'' fs of
        Inl e \<Rightarrow> Inl e
      | Inr fs1 \<Rightarrow>
          if path_exists fs1 (csv_path now)
          then to_csv_append (map to_row departures) (csv_path now) fs1
          else to_csv (map to_row departures) (csv_path now) fs1)"
    using assms unfolding save_to_csv_def Let_def writer_paths by simp
  then show ?thesis
    by (auto simp add: makedirs_def path_exists_def to_csv_def to_csv_append_def open_error_def
        dirname_csv_path csv_path_not_departures)
qed

section \<open>The day before\<close>

lemma days_before_month_step:
  assumes "1 < m"
  shows "days_before_month y m = days_before_month y (m - 1) + days_in_month y (m - 1)"
proof -
  obtain k where m: "m = Suc k" and k: "1 \<le> k"
    using assms by (cases m) auto
  have "[1..<Suc k] = [1..<k] @ [k]"
    using k by simp
  then show ?thesis
    by (simp add: days_before_month_def m)
qed

lemma days_before_month_12: "days_before_month y 12 + 31 = (if is_leap y then 366 else 365)"
proof -
  have "[1..<12] = [1, 2, 3, 4, 5, 6, 7, 8, 9, 10, 11 :: nat]"
    by code_simp
  then show ?thesis
    by (simp add: days_before_month_def days_in_month_def)
qed

lemma div_step:
  fixes z :: nat
  assumes "0 < k"
  shows "Suc z div k = z div k + (if Suc z mod k = 0 then 1 else 0)"
  using assms by (simp add: div_Suc mod_Suc)

lemma days_before_year_Suc:
  "days_before_year (Suc (Suc z)) = days_before_year (Suc z) + (if is_leap (Suc z) then 366 else 365)"
proof -
  define a c d where "a = z div 4" and "c = z div 100" and "d = z div 400"
  define i4 i100 i400 :: nat
    where "i4 = (if Suc z mod 4 = 0 then 1 else 0)"
      and "i100 = (if Suc z mod 100 = 0 then 1 else 0)"
      and "i400 = (if Suc z mod 400 = 0 then 1 else 0)"
  have s4: "Suc z div 4 = a + i4"
    unfolding a_def i4_def by (rule div_step) simp
  have s100: "Suc z div 100 = c + i100"
    unfolding c_def i100_def by (rule div_step) simp
  have s400: "Suc z div 400 = d + i400"
    unfolding d_def i400_def by (rule div_step) simp
  have le: "c \<le> a"
    unfolding a_def c_def by (rule div_le_mono2) simp_all
  have before: "days_before_year (Suc z) = z * 365 + a - c + d"
    by (simp add: days_before_year_def a_def c_def d_def)
  have after: "days_before_year (Suc (Suc z)) = Suc z * 365 + (a + i4) - (c + i100) + (d + i400)"
    by (simp add: days_before_year_def s4 s100 s400)
  have "4 dvd Suc z" if "100 dvd Suc z"
    using that by (rule dvd_trans [rotated]) simp
  then have m1: "i100 \<le> i4"
    by (simp add: i4_def i100_def mod_eq_0_iff_dvd)
  have "100 dvd Suc z" if "400 dvd Suc z"
    using that by (rule dvd_trans [rotated]) simp
  then have m2: "i400 \<le> i100"
    by (simp add: i400_def i100_def mod_eq_0_iff_dvd)
  have b4: "i4 \<le> 1" and b100: "i100 \<le> 1" and b400: "i400 \<le> 1"
    by (simp_all add: i4_def i100_def i400_def)
  have leap: "(if is_leap (Suc z) then 366 else 365) = 365 + i4 - i100 + i400"
    using m1 m2 by (auto simp add: is_leap_def i4_def i100_def i400_def split: if_splits)
  show ?thesis
    unfolding before after leap using le m1 m2 b4 b100 b400 by simp
qed

lemma days_in_month_pos: "1 \<le> days_in_month y m"
  by (simp add: days_in_month_def)

lemma days_before_year_small: "y \<le> 1 \<Longrightarrow> days_before_year y = 0"
  by (simp add: days_before_year_def)

lemma minus_one_day_ordinal:
  assumes valid: "valid_date t" and later: "1 < toordinal t"
  shows "valid_date (minus_one_day t) \<and> toordinal (minus_one_day t) + 1 = toordinal t"
proof (cases "1 < day t")
  case True
  with valid show ?thesis
    by (auto simp add: minus_one_day_def valid_date_def toordinal_def)
next
  case False
  with valid have d1: "day t = 1"
    by (simp add: valid_date_def)
  show ?thesis
  proof (cases "1 < month t")
    case True
    with valid d1 show ?thesis
      using days_before_month_step [OF True, of "year t"] days_in_month_pos [of "year t" "month t - 1"]
      by (auto simp add: minus_one_day_def valid_date_def toordinal_def)
  next
    case False
    with valid have m1: "month t = 1"
      by (simp add: valid_date_def)
    have "days_before_month (year t) 1 = 0"
      by (simp add: days_before_month_def)
    with later d1 m1 have "0 < days_before_year (year t)"
      by (simp add: toordinal_def)
    then have "2 \<le> year t"
      using days_before_year_small [of "year t"] by (cases "year t \<le> 1") simp_all
    then obtain z where y: "year t = Suc (Suc z)"
      by (metis Suc_le_D numeral_2_eq_2 Suc_le_mono)
    show ?thesis
      using d1 m1 y days_before_year_Suc [of z] days_before_month_12 [of "Suc z"]
      by (auto simp add: minus_one_day_def valid_date_def toordinal_def days_in_month_def
          days_before_month_def)
  qed
qed

section \<open>The service-day bucket and the daily file\<close>

lemma to_row_not_columns: "to_row d \<noteq> columns"
proof
  assume "to_row d = columns"
  then have "str_nat (car_sections d) = ''car_sections''"
    by (simp add: to_row_def columns_def)
  then have "CHR ''c'' \<in> set (str_nat (car_sections d))"
    by simp
  with str_nat_digits [of "car_sections d"] show False
    by auto
qed

lemma count_list_rows: "count_list (map to_row ds) columns = 0"
  by (induction ds) (simp_all add: to_row_not_columns)

text \<open>
  C4.  Before 04:00 the bucket of \<^verbatim>\<open>get_current_file_date\<close> is the date of the day before
  the capture moment, from 04:00 on it is the date of the capture moment.  The day before
  a valid date is a valid date whose day number is one less, at the same time of day.
\<close>

theorem service_day_bucket:
  "(hour now < 4 \<longrightarrow>
      get_current_file_date now = ''departures/'' @ strftime_date (minus_one_day now)) \<and>
   (4 \<le> hour now \<longrightarrow> get_current_file_date now = ''departures/'' @ strftime_date now) \<and>
   (valid_date now \<and> 1 < toordinal now \<longrightarrow>
      valid_date (minus_one_day now) \<and> toordinal (minus_one_day now) + 1 = toordinal now \<and>
      hour (minus_one_day now) = hour now \<and> minute (minus_one_day now) = minute now \<and>
      second (minus_one_day now) = second now)"
proof -
  have "hour (minus_one_day now) = hour now \<and> minute (minus_one_day now) = minute now \<and>
      second (minus_one_day now) = second now"
    by (simp add: minus_one_day_def)
  then show ?thesis
    using minus_one_day_ordinal [of now]
    by (simp add: get_current_file_date_eq bucket_date_def)
qed

text \<open>C4 at 03:59 and at 04:00 on 1 March 2024, the day after a leap day.\<close>

theorem service_day_bucket_witness:
  "hour clock_0359 < 4 \<and>
   get_current_file_date clock_0359 = ''departures/2024-02-29'' \<and>
   4 \<le> hour clock_0400 \<and>
   get_current_file_date clock_0400 = ''departures/2024-03-01'' \<and>
   valid_date clock_0359 \<and> 1 < toordinal clock_0359 \<and>
   minus_one_day clock_0359 = clock_0359\<lparr>month := 2, day := 29\<rparr> \<and>
   toordinal (minus_one_day clock_0359) + 1 = toordinal clock_0359"
proof -
  have h1: "hour clock_0359 < 4" and h2: "4 \<le> hour clock_0400"
    by (simp_all add: clock_0359_def clock_0400_def)
  have s1: "strftime_date (minus_one_day clock_0359) = ''2024-02-29''"
    by code_simp
  have s2: "strftime_date clock_0400 = ''2024-03-01''"
    by code_simp
  have v: "valid_date clock_0359"
    by code_simp
  have "[1..<3] = [1, 2 :: nat]"
    by code_simp
  then have o: "1 < toordinal clock_0359"
    by (simp add: toordinal_def days_before_month_def days_in_month_def clock_0359_def)
  have m: "minus_one_day clock_0359 = clock_0359\<lparr>month := 2, day := 29\<rparr>"
    by code_simp
  show ?thesis
    using service_day_bucket [of clock_0359] service_day_bucket [of clock_0400] h1 h2 s1 s2 v o m
    by simp
qed

text \<open>
  C2, as the code has it.  A write of a non-empty list goes to the file
  \<^verbatim>\<open>departures/departures_<YYYY-MM-DD>.csv\<close> of the service day, directly in the
  directory \<^verbatim>\<open>departures\<close>, which is created; the file gets the header and the rows when
  it was not there, and the rows after its content when it was.  The write raises when
  \<^verbatim>\<open>departures\<close> is a regular file or the target is a directory.
\<close>

theorem save_to_csv_target:
  assumes "departures \<noteq> []"
  shows "save_to_csv now departures fs =
     (if files fs ''departures'' \<noteq> None then Inl FileExistsError
      else if csv_path now \<in> dirs fs then Inl IsADirectoryError
      else Inr (fs\<lparr>dirs := insert ''departures'' (dirs fs),
                    files := (files fs)(csv_path now \<mapsto>
                      (case files fs (csv_path now) of
                         None \<Rightarrow> [columns]
                       | Some old \<Rightarrow> old) @ map to_row departures)\<rparr>)) \<and>
     csv_path now = ''departures/departures_'' @
       strftime_date (if hour now < 4 then minus_one_day now else now) @ ''.csv''"
  using save_to_csv_nonempty [OF assms, of now fs]
  by (simp add: csv_path_def bucket_date_def)

text \<open>C2 as amended, for one record written at 04:00 on 1 March 2024 to an empty file
  system.\<close>

theorem save_to_csv_target_witness:
  "[newark_record] \<noteq> [] \<and>
   csv_path clock_0400 = ''departures/departures_2024-03-01.csv'' \<and>
   file_after (save_to_csv clock_0400 [newark_record] fs_empty) ''departures/departures_2024-03-01.csv''
     = Inr (Some [columns, to_row newark_record])"
proof -
  have ne: "[newark_record] \<noteq> []"
    by simp
  have p: "csv_path clock_0400 = ''departures/departures_2024-03-01.csv''"
    by code_simp
  show ?thesis
    using save_to_csv_target [OF ne, of clock_0400 fs_empty] p
    by (simp add: fs_empty_def file_after_def)
qed

text \<open>
  C2, as the specification has it, fails: after that write nothing is at
  \<^verbatim>\<open>departures/2024-03-01/departures_2024-03-01.csv\<close>, and the header and the row are at
  \<^verbatim>\<open>departures/departures_2024-03-01.csv\<close>.
\<close>

theorem save_to_csv_target_counterexample:
  "file_after (save_to_csv clock_0400 [newark_record] fs_empty)
       ''departures/2024-03-01/departures_2024-03-01.csv'' = Inr None \<and>
   file_after (save_to_csv clock_0400 [newark_record] fs_empty)
       ''departures/departures_2024-03-01.csv'' = Inr (Some [columns, to_row newark_record])"
proof -
  have p: "csv_path clock_0400 = ''departures/departures_2024-03-01.csv''"
    by code_simp
  show ?thesis
    using save_to_csv_nonempty [of "[newark_record]" clock_0400 fs_empty] p
    by (simp add: fs_empty_def file_after_def)
qed

text \<open>
  C6.  On a file system where the file of the bucket is not there yet (and
  \<^verbatim>\<open>departures\<close> is not a regular file), the first non-empty write of the bucket leaves
  the header followed by its rows, and a second non-empty write of the same bucket leaves
  the header, the rows of the first and the rows of the second, with the header exactly
  once.  Any write to a file that is there adds its rows after the content.
\<close>

theorem one_header_per_bucket:
  assumes "first_run \<noteq> []" and "second_run \<noteq> []"
    and "strftime_date (bucket_date now1) = strftime_date (bucket_date now2)"
    and "files fs ''departures'' = None"
    and "\<not> path_exists fs (csv_path now1)"
  shows "file_after (save_to_csv now1 first_run fs) (csv_path now1)
           = Inr (Some (columns # map to_row first_run)) \<and>
         file_after (then_save now2 second_run (save_to_csv now1 first_run fs)) (csv_path now1)
           = Inr (Some (columns # map to_row first_run @ map to_row second_run)) \<and>
         count_list (columns # map to_row first_run @ map to_row second_run) columns = 1 \<and>
         (files fs' (csv_path now2) = Some old \<and> files fs' ''departures'' = None \<and>
          csv_path now2 \<notin> dirs fs' \<longrightarrow>
            file_after (save_to_csv now2 second_run fs') (csv_path now2)
              = Inr (Some (old @ map to_row second_run)))"
proof -
  have same: "csv_path now2 = csv_path now1"
    using assms(3) by (simp add: csv_path_def)
  have fresh: "csv_path now1 \<notin> dirs fs" "files fs (csv_path now1) = None"
    using assms(5) by (simp_all add: path_exists_def)
  have r1: "save_to_csv now1 first_run fs =
      Inr (fs\<lparr>dirs := insert ''departures'' (dirs fs),
              files := (files fs)(csv_path now1 \<mapsto> columns # map to_row first_run)\<rparr>)"
    using assms(4) fresh by (simp add: save_to_csv_nonempty [OF assms(1)])
  have one: "file_after (save_to_csv now1 first_run fs) (csv_path now1)
           = Inr (Some (columns # map to_row first_run))"
    by (simp add: r1 file_after_def)
  have two: "file_after (then_save now2 second_run (save_to_csv now1 first_run fs)) (csv_path now1)
           = Inr (Some (columns # map to_row first_run @ map to_row second_run))"
    using assms(4) fresh csv_path_not_departures [of now1]
    by (simp add: r1 then_save_def save_to_csv_nonempty [OF assms(2)] same file_after_def)
  have header: "count_list (columns # map to_row first_run @ map to_row second_run) columns = 1"
    using count_list_rows [of "first_run @ second_run"] by simp
  have later: "file_after (save_to_csv now2 second_run fs') (csv_path now2)
              = Inr (Some (old @ map to_row second_run))"
    if "files fs' (csv_path now2) = Some old" "files fs' ''departures'' = None"
      "csv_path now2 \<notin> dirs fs'"
    using that by (simp add: save_to_csv_nonempty [OF assms(2)] file_after_def)
  from one two header later show ?thesis
    by simp
qed

text \<open>C6 for a write at 23:10 on 29 February 2024 and a write at 03:59 the next
  morning, and for a write to a file that is there.\<close>

theorem one_header_per_bucket_witness:
  "[newark_record] \<noteq> [] \<and> [hoboken_record] \<noteq> [] \<and>
   strftime_date (bucket_date clock_2310) = strftime_date (bucket_date clock_0359) \<and>
   files fs_empty ''departures'' = None \<and>
   \<not> path_exists fs_empty (csv_path clock_2310) \<and>
   csv_path clock_2310 = ''departures/departures_2024-02-29.csv'' \<and>
   file_after (save_to_csv clock_2310 [newark_record] fs_empty)
       ''departures/departures_2024-02-29.csv''
     = Inr (Some [columns, to_row newark_record]) \<and>
   file_after (then_save clock_0359 [hoboken_record] (save_to_csv clock_2310 [newark_record] fs_empty))
       ''departures/departures_2024-02-29.csv''
     = Inr (Some [columns, to_row newark_record, to_row hoboken_record]) \<and>
   count_list [columns, to_row newark_record, to_row hoboken_record] columns = 1 \<and>
   files fs_one (csv_path clock_0359) = Some [columns, to_row newark_record] \<and>
   files fs_one ''departures'' = None \<and>
   csv_path clock_0359 \<notin> dirs fs_one \<and>
   file_after (save_to_csv clock_0359 [hoboken_record] fs_one) ''departures/departures_2024-02-29.csv''
     = Inr (Some [columns, to_row newark_record, to_row hoboken_record])"
proof -
  have ne1: "[newark_record] \<noteq> []" and ne2: "[hoboken_record] \<noteq> []"
    by simp_all
  have p1: "csv_path clock_2310 = ''departures/departures_2024-02-29.csv''"
    by code_simp
  have p2: "csv_path clock_0359 = ''departures/departures_2024-02-29.csv''"
    by code_simp
  have same: "strftime_date (bucket_date clock_2310) = strftime_date (bucket_date clock_0359)"
    by code_simp
  have dep: "files fs_empty ''departures'' = None"
    by (simp add: fs_empty_def)
  have fresh: "\<not> path_exists fs_empty (csv_path clock_2310)"
    by (simp add: path_exists_def fs_empty_def)
  have there: "files fs_one (csv_path clock_0359) = Some [columns, to_row newark_record]"
    "files fs_one ''departures'' = None" "csv_path clock_0359 \<notin> dirs fs_one"
    by (simp_all add: p2 fs_one_def)
  show ?thesis
    using one_header_per_bucket [OF ne1 ne2 same dep fresh,
        where fs' = fs_one and old = "[columns, to_row newark_record]"]
      ne1 ne2 same dep fresh there p1 p2
    by simp
qed

text \<open>C8.  A write of the empty list returns the file system as it is: no directory and
  no file is created or changed.\<close>

theorem empty_run_no_io:
  "save_to_csv now [] fs = Inr fs"
  by (simp add: save_to_csv_def)

text \<open>C8 on the empty file system.\<close>

theorem empty_run_no_io_witness:
  "save_to_csv clock_0359 [] fs_empty = Inr fs_empty"
  by (rule empty_run_no_io)

end
